theory Spec2Isabelle
  imports Main "HOL-Library.Word"
begin

section \<open>Strings of the host language\<close>

text \<open>
  The program is TypeScript: a string is a sequence of 16-bit code units, and both
  \<^verbatim>\<open>String.prototype.trim\<close> and a regular expression without the \<^verbatim>\<open>u\<close> flag work
  on code units. \<open>js\<close> embeds an ASCII literal.
\<close>

type_synonym code_unit = "16 word"
type_synonym jsstring = "code_unit list"

definition js :: "string \<Rightarrow> jsstring" where
  "js s = map (\<lambda>c. of_char c) s"

text \<open>
  What \<^verbatim>\<open>trim\<close> strips: the WhiteSpace and LineTerminator code points of ECMAScript
  (TAB, LF, VT, FF, CR, SP, NBSP, the other space separators, LS, PS, ZWNBSP).
\<close>

definition is_white_space :: "code_unit \<Rightarrow> bool" where
  "is_white_space c \<longleftrightarrow>
     c = 0x09 \<or> c = 0x0A \<or> c = 0x0B \<or> c = 0x0C \<or> c = 0x0D \<or> c = 0x20 \<or> c = 0xA0 \<or>
     c = 0x1680 \<or> (0x2000 \<le> c \<and> c \<le> 0x200A) \<or> c = 0x2028 \<or> c = 0x2029 \<or>
     c = 0x202F \<or> c = 0x205F \<or> c = 0x3000 \<or> c = 0xFEFF"

definition trim :: "jsstring \<Rightarrow> jsstring" where
  "trim s = rev (dropWhile is_white_space (rev (dropWhile is_white_space s)))"

section \<open>Segmentation of a description (\<^verbatim>\<open>handleSelectStop\<close>, lines 156 to 159)\<close>

text \<open>The character class \<^verbatim>\<open>[.!?]\<close> of the source's regular expression.\<close>

definition is_terminator :: "code_unit \<Rightarrow> bool" where
  "is_terminator c \<longleftrightarrow> c = 0x2E \<or> c = 0x21 \<or> c = 0x3F"

text \<open>
  One attempt to match \<^verbatim>\<open>[^.!?]+[.!?]+\<close> at the start of \<open>s\<close>. The two classes are
  disjoint, so the greedy match is the only one: the longest run of non-terminators, which
  must not be empty, then the longest run of terminators, which must not be empty either.
  The result is the matched text and what follows it.
\<close>

definition match_at :: "jsstring \<Rightarrow> (jsstring \<times> jsstring) option" where
  "match_at s =
     (let body = takeWhile (\<lambda>c. \<not> is_terminator c) s;
          after = dropWhile (\<lambda>c. \<not> is_terminator c) s;
          marks = takeWhile is_terminator after
      in if body = [] \<or> marks = [] then None
         else Some (body @ marks, dropWhile is_terminator after))"

text \<open>
  \<^verbatim>\<open>s.match(/[^.!?]+[.!?]+/g)\<close>: every match from left to right; where no match starts
  at the current position the search moves on by one code unit. The empty list stands for
  the \<^verbatim>\<open>null\<close> that \<^verbatim>\<open>match\<close> returns when nothing matches.
\<close>

function match_all :: "jsstring \<Rightarrow> jsstring list" where
  "match_all [] = []"
| "match_all (c # s) =
     (case match_at (c # s) of
        Some (m, r) \<Rightarrow> m # match_all r
      | None \<Rightarrow> match_all s)"
  by pat_completeness auto
termination
proof (relation "measure length")
  show "wf (measure length)" by simp
next
  fix c :: code_unit and s :: jsstring
  show "(s, c # s) \<in> measure length" by simp
next
  fix c :: code_unit and s m r :: jsstring and x :: "jsstring \<times> jsstring"
  assume h: "match_at (c # s) = Some x" and x: "(m, r) = x"
  let ?body = "takeWhile (\<lambda>c. \<not> is_terminator c) (c # s)"
  let ?after = "dropWhile (\<lambda>c. \<not> is_terminator c) (c # s)"
  from h x have body: "?body \<noteq> []" and r: "r = dropWhile is_terminator ?after"
    by (auto simp: match_at_def Let_def split: if_splits)
  have "length r \<le> length ?after"
    unfolding r by (rule length_dropWhile_le)
  moreover have "length ?body + length ?after = length (c # s)"
    by (metis length_append takeWhile_dropWhile_id)
  moreover from body have "0 < length ?body" by (rule length_greater_0_conv [THEN iffD2])
  ultimately show "(r, c # s) \<in> measure length" unfolding in_measure by linarith
qed

text \<open>
  The string literal of line 156, used for a stop that has no description. Its fourteenth
  code unit is the letter o with an acute accent, \<open>0xF3\<close>.
\<close>

definition placeholder :: jsstring where
  "placeholder = js ''Sin descripci'' @ [0xF3] @ js ''n disponible.''"

text \<open>
  \<^verbatim>\<open>stop.description?.trim() || placeholder\<close>: an absent description and one that
  trims to the empty string both give the placeholder.
\<close>

definition fullText :: "jsstring option \<Rightarrow> jsstring" where
  "fullText desc =
     (case desc of
        None \<Rightarrow> placeholder
      | Some d \<Rightarrow> if trim d = [] then placeholder else trim d)"

text \<open>\<^verbatim>\<open>fullText.match(/[^.!?]+[.!?]+/g) || [fullText]\<close>\<close>

definition chunks :: "jsstring \<Rightarrow> jsstring list" where
  "chunks t = (case match_all t of [] \<Rightarrow> [t] | m # ms \<Rightarrow> m # ms)"

text \<open>\<^verbatim>\<open>chunks.map(c => c.trim()).filter(c => c.length > 0)\<close>\<close>

definition cleanChunks :: "jsstring option \<Rightarrow> jsstring list" where
  "cleanChunks desc =
     filter (\<lambda>c. length c > 0) (map trim (chunks (fullText desc)))"

section \<open>The narration sequencer of \<^verbatim>\<open>TourMapScreen\<close>\<close>

text \<open>
  A stop as the sequencer reads it. The source's field \<^verbatim>\<open>id\<close> is \<open>stop_id\<close> here; the
  coordinates and \<^verbatim>\<open>stop_order\<close> are never read by the sequencer and are left out.
\<close>

record stop =
  stop_id :: jsstring
  title :: jsstring
  description :: "jsstring option"

text \<open>
  The closures handed to \<^verbatim>\<open>Speech.speak\<close>, as data: each constructor carries what its
  closure captured.
  \<^item> \<open>PlayFromDone array index\<close>: \<^verbatim>\<open>onDone\<close> of \<^verbatim>\<open>playFrom(array, index)\<close>;
  \<^item> \<open>PlayFromError\<close>: \<^verbatim>\<open>onError\<close> of \<^verbatim>\<open>playFrom\<close>;
  \<^item> \<open>SelectDone cs\<close>: \<^verbatim>\<open>onDone\<close> of the opening utterance of
    \<^verbatim>\<open>handleSelectStop\<close>, where \<open>cs\<close> is its \<^verbatim>\<open>cleanChunks\<close>;
  \<^item> \<open>SelectError\<close>: \<^verbatim>\<open>onError\<close> of the opening utterance.
\<close>

datatype callback =
    PlayFromDone "jsstring list" nat
  | PlayFromError
  | SelectDone "jsstring list"
  | SelectError

text \<open>
  A call to the speech engine: \<^verbatim>\<open>Speech.stop()\<close>, \<^verbatim>\<open>Speech.pause()\<close>, or
  \<^verbatim>\<open>Speech.speak(text, {onDone, onError})\<close>. Language, pitch and rate are constants of
  the source and are left out.
\<close>

datatype speech_call =
    SpeechStop
  | SpeechPause
  | SpeechSpeak jsstring callback callback

text \<open>
  The component's state: the five \<^verbatim>\<open>useState\<close> cells of lines 43 to 47, the two refs
  of lines 50 and 51, and the effects so far: the calls made to the engine and the
  alerts shown (title and message), oldest first.
\<close>

record screen =
  selectedStop :: "stop option"
  sentences :: "jsstring list"
  currentIdx :: nat
  isSpeaking :: bool
  isPaused :: bool
  isPausedRef :: bool
  currentIdxRef :: nat
  speech :: "speech_call list"
  alerts :: "(jsstring \<times> jsstring) list"

definition initial :: screen where
  "initial = \<lparr>selectedStop = None, sentences = [], currentIdx = 0, isSpeaking = False,
     isPaused = False, isPausedRef = False, currentIdxRef = 0, speech = [], alerts = []\<rparr>"

text \<open>
  \<^verbatim>\<open>playFrom\<close> (lines 127 to 149). The recursion of the source goes through the
  \<^verbatim>\<open>onDone\<close> callback, so one call speaks at most one unit.
\<close>

definition playFrom :: "jsstring list \<Rightarrow> nat \<Rightarrow> screen \<Rightarrow> screen" where
  "playFrom array index s =
     (if index \<ge> length array \<or> isPausedRef s then
        (if index \<ge> length array then s\<lparr>isSpeaking := False\<rparr> else s)
      else
        s\<lparr>currentIdx := index, currentIdxRef := index,
          speech := speech s @
            [SpeechSpeak (trim (array ! index)) (PlayFromDone array index) PlayFromError]\<rparr>)"

text \<open>The bodies of the four closures (lines 140 to 147 and 171 to 181).\<close>

fun deliver :: "callback \<Rightarrow> screen \<Rightarrow> screen" where
  "deliver (PlayFromDone array index) s =
     (if \<not> isPausedRef s then playFrom array (index + 1) s else s)"
| "deliver PlayFromError s =
     s\<lparr>alerts := alerts s @
         [(js ''Error de voz'', js ''No se pudo reproducir. Verifica volumen o modo silencio.'')],
       isSpeaking := False\<rparr>"
| "deliver (SelectDone cs) s =
     (if length cs > 1 \<and> \<not> isPausedRef s then playFrom (drop 1 cs) 1 s
      else s\<lparr>isSpeaking := False\<rparr>)"
| "deliver SelectError s =
     s\<lparr>alerts := alerts s @
         [(js ''Error'', js ''No se pudo reproducir el audio. Verifica ajustes de voz.'')]\<rparr>"

text \<open>
  The opening utterance of line 168: the title, a full stop and a space, then
  \<^verbatim>\<open>cleanChunks[0] || ""\<close>.
\<close>

definition initialText :: "stop \<Rightarrow> jsstring list \<Rightarrow> jsstring" where
  "initialText stop cs = title stop @ js ''. '' @ (case cs of [] \<Rightarrow> [] | c # _ \<Rightarrow> c)"

text \<open>\<^verbatim>\<open>handleSelectStop\<close> (lines 152 to 183).\<close>

definition handleSelectStop :: "stop \<Rightarrow> screen \<Rightarrow> screen" where
  "handleSelectStop stop s =
     (let cs = cleanChunks (description stop)
      in s\<lparr>speech := speech s @
              [SpeechStop, SpeechSpeak (initialText stop cs) (SelectDone cs) SelectError],
            selectedStop := Some stop,
            sentences := cs,
            currentIdx := 0,
            currentIdxRef := 0,
            isSpeaking := True,
            isPaused := False,
            isPausedRef := False\<rparr>)"

text \<open>\<^verbatim>\<open>togglePlayback\<close> (lines 186 to 196).\<close>

definition togglePlayback :: "screen \<Rightarrow> screen" where
  "togglePlayback s =
     (if isPaused s then
        playFrom (sentences s) (currentIdxRef s) (s\<lparr>isPaused := False, isPausedRef := False\<rparr>)
      else
        s\<lparr>isPaused := True, isPausedRef := True, speech := speech s @ [SpeechPause]\<rparr>)"

text \<open>\<^verbatim>\<open>stopPlayback\<close> (lines 199 to 206). It writes neither ref.\<close>

definition stopPlayback :: "screen \<Rightarrow> screen" where
  "stopPlayback s =
     s\<lparr>speech := speech s @ [SpeechStop],
       isSpeaking := False,
       isPaused := False,
       selectedStop := None,
       sentences := [],
       currentIdx := 0\<rparr>"

text \<open>
  What drives the component: a press on a marker, on the play button or on the stop button,
  and a callback delivered by the engine.
\<close>

datatype event = Select stop | Toggle | Stop | Engine callback

fun step :: "screen \<Rightarrow> event \<Rightarrow> screen" where
  "step s (Select st) = handleSelectStop st s"
| "step s Toggle = togglePlayback s"
| "step s Stop = stopPlayback s"
| "step s (Engine cb) = deliver cb s"

definition run :: "event list \<Rightarrow> screen" where
  "run es = foldl step initial es"

text \<open>
  The playback state as the play button shows it (line 316): \<^verbatim>\<open>REANUDAR\<close> when the
  pause flag is set, else \<^verbatim>\<open>PAUSAR\<close> when the speaking flag is set, else
  \<^verbatim>\<open>REPRODUCIR\<close>.
\<close>

datatype playback = Idle | Speaking | Paused

definition playback_state :: "screen \<Rightarrow> playback" where
  "playback_state s = (if isPaused s then Paused else if isSpeaking s then Speaking else Idle)"

section \<open>Stops used as concrete inputs\<close>

definition giralda :: stop where
  "giralda = \<lparr>stop_id = js ''1'', title = js ''Giralda'',
     description = Some (js ''One. Two. Three. Four.'')\<rparr>"

definition alcazar :: stop where
  "alcazar = \<lparr>stop_id = js ''2'', title = js ''Alcazar'',
     description = Some (js ''Uno. Dos.'')\<rparr>"

definition plaza :: stop where
  "plaza = \<lparr>stop_id = js ''3'', title = js ''Plaza'', description = Some (js ''Solo.'')\<rparr>"

section \<open>Evaluation of the segmentation on the concrete inputs\<close>

lemmas segmentation_defs =
  cleanChunks_def chunks_def fullText_def trim_def is_white_space_def match_at_def
  is_terminator_def js_def Let_def

lemma cleanChunks_giralda:
  "cleanChunks (description giralda) = [js ''One.'', js ''Two.'', js ''Three.'', js ''Four.'']"
  by (simp add: giralda_def segmentation_defs)

lemma cleanChunks_alcazar: "cleanChunks (description alcazar) = [js ''Uno.'', js ''Dos.'']"
  by (simp add: alcazar_def segmentation_defs)

lemma cleanChunks_plaza: "cleanChunks (description plaza) = [js ''Solo.'']"
  by (simp add: plaza_def segmentation_defs)

text \<open>The example of the specification: two sentences, two units.\<close>

lemma cleanChunks_spec_example:
  "cleanChunks (Some (js ''See the arch. Built in 1900!'')) =
     [js ''See the arch.'', js ''Built in 1900!'']"
  by (simp add: segmentation_defs)

text \<open>A description of terminators only is kept whole, as the one unit.\<close>

lemma cleanChunks_terminators_only: "cleanChunks (Some (js '' ?! '')) = [js ''?!'']"
  by (simp add: segmentation_defs)

section \<open>What trimming and matching keep\<close>

lemma dropWhile_all_iff: "(\<forall>x\<in>set (dropWhile P xs). P x) \<longleftrightarrow> (\<forall>x\<in>set xs. P x)"
proof
  assume a: "\<forall>x\<in>set (dropWhile P xs). P x"
  have "dropWhile P xs = []"
  proof (rule ccontr)
    assume ne: "dropWhile P xs \<noteq> []"
    then have "\<not> P (hd (dropWhile P xs))" by (rule hd_dropWhile)
    moreover from ne have "hd (dropWhile P xs) \<in> set (dropWhile P xs)" by simp
    ultimately show False using a by blast
  qed
  then show "\<forall>x\<in>set xs. P x" by simp
next
  assume "\<forall>x\<in>set xs. P x"
  then show "\<forall>x\<in>set (dropWhile P xs). P x" by (blast dest: set_dropWhileD)
qed

lemma trim_Nil_iff: "trim s = [] \<longleftrightarrow> (\<forall>c\<in>set s. is_white_space c)"
  by (simp add: trim_def dropWhile_all_iff)

lemma trim_keeps_ink: "trim s \<noteq> [] \<Longrightarrow> trim (trim s) \<noteq> []"
proof -
  assume ne: "trim s \<noteq> []"
  let ?r = "dropWhile is_white_space (rev (dropWhile is_white_space s))"
  from ne have r: "?r \<noteq> []" by (simp add: trim_def)
  then have "\<not> is_white_space (hd ?r)" by (rule hd_dropWhile)
  moreover from r have "hd ?r \<in> set (trim s)" by (simp add: trim_def)
  ultimately show ?thesis by (auto simp: trim_Nil_iff)
qed

lemma terminator_not_white_space: "is_terminator c \<Longrightarrow> \<not> is_white_space c"
  by (auto simp: is_terminator_def is_white_space_def)

lemma match_at_has_terminator:
  assumes "match_at s = Some (m, r)"
  shows "\<exists>c\<in>set m. is_terminator c"
proof -
  let ?marks = "takeWhile is_terminator (dropWhile (\<lambda>c. \<not> is_terminator c) s)"
  from assms have ne: "?marks \<noteq> []" and m: "m = takeWhile (\<lambda>c. \<not> is_terminator c) s @ ?marks"
    by (auto simp: match_at_def Let_def split: if_splits)
  from ne have "hd ?marks \<in> set ?marks" by simp
  then have "is_terminator (hd ?marks)" by (blast dest: set_takeWhileD)
  moreover from ne have "hd ?marks \<in> set m" unfolding m by simp
  ultimately show ?thesis by blast
qed

lemma match_all_has_terminator:
  "m \<in> set (match_all s) \<Longrightarrow> \<exists>c\<in>set m. is_terminator c"
proof (induction s rule: match_all.induct)
  case 1
  then show ?case by simp
next
  case (2 c s)
  show ?case
  proof (cases "match_at (c # s)")
    case None
    with 2 show ?thesis by simp
  next
    case (Some p)
    obtain m' r where p: "p = (m', r)" by (cases p)
    with Some 2 show ?thesis
      by (auto dest: match_at_has_terminator)
  qed
qed

lemma chunks_not_Nil: "chunks t \<noteq> []"
  by (simp add: chunks_def split: list.splits)

lemma chunks_ink: "trim t \<noteq> [] \<Longrightarrow> c \<in> set (chunks t) \<Longrightarrow> trim c \<noteq> []"
proof (cases "match_all t")
  case Nil
  assume "trim t \<noteq> []" "c \<in> set (chunks t)"
  with Nil show ?thesis by (simp add: chunks_def)
next
  case (Cons m ms)
  assume "c \<in> set (chunks t)"
  with Cons have "c \<in> set (match_all t)" by (simp add: chunks_def)
  then obtain x where "x \<in> set c" "is_terminator x" by (blast dest: match_all_has_terminator)
  then show ?thesis by (auto simp: trim_Nil_iff dest: terminator_not_white_space)
qed

lemma trim_placeholder: "trim placeholder = placeholder"
  by (simp add: placeholder_def trim_def is_white_space_def js_def)

lemma placeholder_not_Nil: "placeholder \<noteq> []"
  by (simp add: placeholder_def js_def)

lemma fullText_ink: "trim (fullText desc) \<noteq> []"
  by (auto simp: fullText_def trim_placeholder placeholder_not_Nil trim_keeps_ink split: option.splits)

lemma cleanChunks_eq_map: "cleanChunks desc = map trim (chunks (fullText desc))"
  unfolding cleanChunks_def
  by (rule filter_True) (auto dest: chunks_ink [OF fullText_ink])

text \<open>
  What the matches of a text add up to: the text without the terminators it starts with and
  without a last part that has no terminator.
\<close>

lemma match_at_no_terminator:
  assumes "\<forall>c\<in>set s. \<not> is_terminator c"
  shows "match_at s = None"
proof -
  from assms have d: "dropWhile (\<lambda>c. \<not> is_terminator c) s = []" by simp
  show ?thesis unfolding match_at_def Let_def d by simp
qed

lemma match_all_no_terminator: "\<forall>c\<in>set s. \<not> is_terminator c \<Longrightarrow> match_all s = []"
  by (induction s) (simp_all add: match_at_no_terminator)

lemma match_at_parts:
  assumes "match_at s = Some (m, r)"
  shows "s = m @ r" and "dropWhile is_terminator s = s" and "dropWhile is_terminator r = r"
proof -
  let ?body = "takeWhile (\<lambda>c. \<not> is_terminator c) s"
  let ?after = "dropWhile (\<lambda>c. \<not> is_terminator c) s"
  from assms have body: "?body \<noteq> []"
    and m: "m = ?body @ takeWhile is_terminator ?after"
    and r: "r = dropWhile is_terminator ?after"
    by (auto simp: match_at_def Let_def split: if_splits)
  have "m @ r = ?body @ (takeWhile is_terminator ?after @ dropWhile is_terminator ?after)"
    by (simp add: m r)
  also have "\<dots> = s" by (simp only: takeWhile_dropWhile_id)
  finally show "s = m @ r" by simp
  from body show "dropWhile is_terminator s = s"
    by (cases s) (auto split: if_splits)
  show "dropWhile is_terminator r = r"
    unfolding r by (rule dropWhile_idem)
qed

lemma match_at_None:
  assumes "match_at (c # s) = None"
  shows "is_terminator c \<or> (\<forall>x\<in>set (c # s). \<not> is_terminator x)"
proof (cases "is_terminator c")
  case True
  then show ?thesis by simp
next
  case False
  let ?after = "dropWhile (\<lambda>c. \<not> is_terminator c) (c # s)"
  from assms False have "takeWhile is_terminator ?after = []"
    by (auto simp: match_at_def Let_def split: if_splits)
  then have "?after = [] \<or> \<not> is_terminator (hd ?after)"
    by (simp only: takeWhile_eq_Nil_iff)
  moreover have "?after \<noteq> [] \<Longrightarrow> \<not> \<not> is_terminator (hd ?after)"
    by (rule hd_dropWhile)
  ultimately have "?after = []" by blast
  then have "\<forall>x\<in>set (c # s). \<not> is_terminator x"
    by (simp only: dropWhile_eq_Nil_conv)
  then show ?thesis by blast
qed

lemma match_all_concat:
  "\<exists>tail. (\<forall>c\<in>set tail. \<not> is_terminator c)
     \<and> dropWhile is_terminator s = concat (match_all s) @ tail"
proof (induction s rule: match_all.induct)
  case 1
  show ?case by simp
next
  case (2 c s)
  show ?case
  proof (cases "match_at (c # s)")
    case None
    from match_at_None [OF None] show ?thesis
    proof
      assume "is_terminator c"
      with None 2 show ?thesis by simp
    next
      assume all: "\<forall>x\<in>set (c # s). \<not> is_terminator x"
      then have "match_all (c # s) = []" by (rule match_all_no_terminator)
      moreover from all have "dropWhile is_terminator (c # s) = c # s" by simp
      ultimately show ?thesis using all by auto
    qed
  next
    case (Some p)
    obtain m r where p: "p = (m, r)" by (cases p)
    from Some p have at: "match_at (c # s) = Some (m, r)" by simp
    from 2(2) [OF Some p [symmetric]] obtain tail
      where tail: "\<forall>c\<in>set tail. \<not> is_terminator c"
        and r: "dropWhile is_terminator r = concat (match_all r) @ tail"
      by blast
    from match_at_parts [OF at] r
    have "dropWhile is_terminator (c # s) = m @ concat (match_all r) @ tail"
      by simp
    with at tail show ?thesis by auto
  qed
qed

section \<open>The script is never empty\<close>

text \<open>
  Claim C9. For every description, absent or present, the script built by
  \<^verbatim>\<open>handleSelectStop\<close> has at least one unit and no unit trims to the empty string; so
  the opening utterance of any stop is its title, a full stop, a space and a first unit
  that exists and is not empty.
\<close>

theorem cleanChunks_never_empty:
  "cleanChunks desc \<noteq> []
   \<and> (\<forall>u\<in>set (cleanChunks desc). trim u \<noteq> [])
   \<and> (\<exists>c cs. cleanChunks (description st) = c # cs \<and> c \<noteq> []
        \<and> initialText st (cleanChunks (description st)) = title st @ js ''. '' @ c)"
proof (intro conjI)
  show "cleanChunks desc \<noteq> []" by (simp add: cleanChunks_eq_map chunks_not_Nil)
  show "\<forall>u\<in>set (cleanChunks desc). trim u \<noteq> []"
    by (auto simp: cleanChunks_eq_map dest!: chunks_ink [OF fullText_ink] trim_keeps_ink)
  show "\<exists>c cs. cleanChunks (description st) = c # cs \<and> c \<noteq> []
        \<and> initialText st (cleanChunks (description st)) = title st @ js ''. '' @ c"
  proof (cases "chunks (fullText (description st))")
    case Nil
    then show ?thesis by (simp add: chunks_not_Nil)
  next
    case (Cons k ks)
    then have "k \<in> set (chunks (fullText (description st)))" by simp
    then have "trim k \<noteq> []" by (rule chunks_ink [OF fullText_ink])
    with Cons show ?thesis by (simp add: cleanChunks_eq_map initialText_def)
  qed
qed

text \<open>An instance: a description of blanks and terminators only.\<close>

theorem cleanChunks_never_empty_witness:
  "cleanChunks (Some (js '' ?! '')) \<noteq> [] \<and> trim (hd (cleanChunks (Some (js '' ?! '')))) \<noteq> []"
proof -
  let ?cs = "cleanChunks (Some (js '' ?! ''))"
  from cleanChunks_never_empty [of "Some (js '' ?! '')" plaza]
  have ne: "?cs \<noteq> []" and ink: "\<forall>u\<in>set ?cs. trim u \<noteq> []"
    by blast+
  from ne have "hd ?cs \<in> set ?cs" by simp
  with ne ink show ?thesis by blast
qed

section \<open>The placeholder\<close>

lemma match_all_placeholder: "match_all placeholder = [placeholder]"
  by (simp add: placeholder_def js_def match_at_def is_terminator_def Let_def)

lemma cleanChunks_placeholder: "fullText desc = placeholder \<Longrightarrow> cleanChunks desc = [placeholder]"
  by (simp add: cleanChunks_eq_map chunks_def match_all_placeholder trim_placeholder)

text \<open>
  Claim C8, as amended. For every description that is absent, empty or made of white space
  only, the script is exactly one unit, the placeholder of line 156, which is the Spanish
  sentence of the source and not an English one.
\<close>

theorem cleanChunks_blank:
  "desc = None \<or> (\<exists>d. desc = Some d \<and> (\<forall>c\<in>set d. is_white_space c)) \<Longrightarrow>
     cleanChunks desc = [placeholder]"
  by (rule cleanChunks_placeholder) (auto simp: fullText_def trim_Nil_iff)

text \<open>Instances: no description, the empty one, and one of a space, a line feed and a
  no-break space.\<close>

theorem cleanChunks_blank_witness:
  "trim (js '' '' @ [0x0A, 0xA0]) = []
   \<and> cleanChunks None = [placeholder]
   \<and> cleanChunks (Some (js '''')) = [placeholder]
   \<and> cleanChunks (Some (js '' '' @ [0x0A, 0xA0])) = [placeholder]"
  using cleanChunks_blank [of None] cleanChunks_blank [of "Some (js '''')"]
    cleanChunks_blank [of "Some (js '' '' @ [0x0A, 0xA0])"]
  by (simp add: is_white_space_def js_def trim_def)

text \<open>
  The empty description gives the source's placeholder, and that is not the string
  \<^verbatim>\<open>No description available.\<close>
\<close>

theorem cleanChunks_blank_counterexample:
  "cleanChunks (Some (js '''')) \<noteq> [js ''No description available.'']
   \<and> cleanChunks (Some (js '''')) = [placeholder]"
proof -
  have "fullText (Some (js '''')) = placeholder"
    by (simp add: fullText_def trim_def js_def)
  then have "cleanChunks (Some (js '''')) = [placeholder]"
    by (rule cleanChunks_placeholder)
  moreover have "placeholder \<noteq> js ''No description available.''"
    by (simp add: placeholder_def js_def)
  ultimately show ?thesis by simp
qed

section \<open>Text after the last terminator\<close>

text \<open>
  Claim C2 at a description whose last sentence has no terminator: the regular expression
  matches only the first sentence, and \<^verbatim>\<open>Built in 1900\<close> is in no unit.
\<close>

theorem cleanChunks_drops_unterminated_tail:
  "cleanChunks (Some (js ''See the arch. Built in 1900'')) = [js ''See the arch.'']"
  by (simp add: segmentation_defs)

section \<open>Evaluation of the sequencer on the concrete inputs\<close>

lemmas sequencer_defs =
  run_def initial_def handleSelectStop_def togglePlayback_def stopPlayback_def playFrom_def
  initialText_def Let_def

lemma run_snoc: "run (es @ [e]) = step (run es) e"
  by (simp add: run_def)

text \<open>Giralda: the opening utterance, its completion, then a pause.\<close>

lemma run_giralda_opening_done:
  "run [Select giralda, Engine (SelectDone [js ''One.'', js ''Two.'', js ''Three.'', js ''Four.''])] =
     \<lparr>selectedStop = Some giralda,
      sentences = [js ''One.'', js ''Two.'', js ''Three.'', js ''Four.''],
      currentIdx = 1, isSpeaking = True, isPaused = False, isPausedRef = False,
      currentIdxRef = 1,
      speech = [SpeechStop,
        SpeechSpeak (js ''Giralda. One.'')
          (SelectDone [js ''One.'', js ''Two.'', js ''Three.'', js ''Four.'']) SelectError,
        SpeechSpeak (js ''Three.'')
          (PlayFromDone [js ''Two.'', js ''Three.'', js ''Four.''] 1) PlayFromError],
      alerts = []\<rparr>"
  by (simp add: sequencer_defs cleanChunks_giralda, simp add: giralda_def js_def trim_def is_white_space_def)

lemma run_giralda_paused:
  "run [Select giralda, Engine (SelectDone [js ''One.'', js ''Two.'', js ''Three.'', js ''Four.'']),
        Toggle] =
     \<lparr>selectedStop = Some giralda,
      sentences = [js ''One.'', js ''Two.'', js ''Three.'', js ''Four.''],
      currentIdx = 1, isSpeaking = True, isPaused = True, isPausedRef = True,
      currentIdxRef = 1,
      speech = [SpeechStop,
        SpeechSpeak (js ''Giralda. One.'')
          (SelectDone [js ''One.'', js ''Two.'', js ''Three.'', js ''Four.'']) SelectError,
        SpeechSpeak (js ''Three.'')
          (PlayFromDone [js ''Two.'', js ''Three.'', js ''Four.''] 1) PlayFromError,
        SpeechPause],
      alerts = []\<rparr>"
  using run_snoc [of "[Select giralda,
      Engine (SelectDone [js ''One.'', js ''Two.'', js ''Three.'', js ''Four.''])]" Toggle]
  by (simp add: run_giralda_opening_done togglePlayback_def)

text \<open>Alcazar selected while Giralda is being narrated, then a late completion of
  Giralda's utterance, or a pause.\<close>

lemma run_alcazar_after_giralda:
  "run [Select giralda, Engine (SelectDone [js ''One.'', js ''Two.'', js ''Three.'', js ''Four.'']),
        Select alcazar] =
     \<lparr>selectedStop = Some alcazar,
      sentences = [js ''Uno.'', js ''Dos.''],
      currentIdx = 0, isSpeaking = True, isPaused = False, isPausedRef = False,
      currentIdxRef = 0,
      speech = [SpeechStop,
        SpeechSpeak (js ''Giralda. One.'')
          (SelectDone [js ''One.'', js ''Two.'', js ''Three.'', js ''Four.'']) SelectError,
        SpeechSpeak (js ''Three.'')
          (PlayFromDone [js ''Two.'', js ''Three.'', js ''Four.''] 1) PlayFromError,
        SpeechStop,
        SpeechSpeak (js ''Alcazar. Uno.'') (SelectDone [js ''Uno.'', js ''Dos.'']) SelectError],
      alerts = []\<rparr>"
  using run_snoc [of "[Select giralda,
      Engine (SelectDone [js ''One.'', js ''Two.'', js ''Three.'', js ''Four.''])]" "Select alcazar"]
  by (simp add: run_giralda_opening_done handleSelectStop_def Let_def cleanChunks_alcazar
      initialText_def, simp add: alcazar_def js_def)

lemma run_stale_done_after_alcazar:
  "run [Select giralda, Engine (SelectDone [js ''One.'', js ''Two.'', js ''Three.'', js ''Four.'']),
        Select alcazar, Engine (PlayFromDone [js ''Two.'', js ''Three.'', js ''Four.''] 1)] =
     \<lparr>selectedStop = Some alcazar,
      sentences = [js ''Uno.'', js ''Dos.''],
      currentIdx = 2, isSpeaking = True, isPaused = False, isPausedRef = False,
      currentIdxRef = 2,
      speech = [SpeechStop,
        SpeechSpeak (js ''Giralda. One.'')
          (SelectDone [js ''One.'', js ''Two.'', js ''Three.'', js ''Four.'']) SelectError,
        SpeechSpeak (js ''Three.'')
          (PlayFromDone [js ''Two.'', js ''Three.'', js ''Four.''] 1) PlayFromError,
        SpeechStop,
        SpeechSpeak (js ''Alcazar. Uno.'') (SelectDone [js ''Uno.'', js ''Dos.'']) SelectError,
        SpeechSpeak (js ''Four.'')
          (PlayFromDone [js ''Two.'', js ''Three.'', js ''Four.''] 2) PlayFromError],
      alerts = []\<rparr>"
  using run_snoc [of "[Select giralda,
      Engine (SelectDone [js ''One.'', js ''Two.'', js ''Three.'', js ''Four.'']), Select alcazar]"
      "Engine (PlayFromDone [js ''Two.'', js ''Three.'', js ''Four.''] 1)"]
  by (simp add: run_alcazar_after_giralda playFrom_def, simp add: js_def trim_def is_white_space_def)

lemma run_alcazar_paused:
  "run [Select giralda, Engine (SelectDone [js ''One.'', js ''Two.'', js ''Three.'', js ''Four.'']),
        Select alcazar, Toggle] =
     \<lparr>selectedStop = Some alcazar,
      sentences = [js ''Uno.'', js ''Dos.''],
      currentIdx = 0, isSpeaking = True, isPaused = True, isPausedRef = True,
      currentIdxRef = 0,
      speech = [SpeechStop,
        SpeechSpeak (js ''Giralda. One.'')
          (SelectDone [js ''One.'', js ''Two.'', js ''Three.'', js ''Four.'']) SelectError,
        SpeechSpeak (js ''Three.'')
          (PlayFromDone [js ''Two.'', js ''Three.'', js ''Four.''] 1) PlayFromError,
        SpeechStop,
        SpeechSpeak (js ''Alcazar. Uno.'') (SelectDone [js ''Uno.'', js ''Dos.'']) SelectError,
        SpeechPause],
      alerts = []\<rparr>"
  using run_snoc [of "[Select giralda,
      Engine (SelectDone [js ''One.'', js ''Two.'', js ''Three.'', js ''Four.'']), Select alcazar]"
      Toggle]
  by (simp add: run_alcazar_after_giralda togglePlayback_def)

text \<open>Plaza: the narration of its single unit finishes, or fails; then the play button is
  pressed once and twice.\<close>

lemma run_plaza_finished:
  "run [Select plaza, Engine (SelectDone [js ''Solo.''])] =
     \<lparr>selectedStop = Some plaza, sentences = [js ''Solo.''], currentIdx = 0,
      isSpeaking = False, isPaused = False, isPausedRef = False, currentIdxRef = 0,
      speech = [SpeechStop,
        SpeechSpeak (js ''Plaza. Solo.'') (SelectDone [js ''Solo.'']) SelectError],
      alerts = []\<rparr>"
  by (simp add: run_def handleSelectStop_def Let_def cleanChunks_plaza initialText_def
      initial_def, simp add: plaza_def js_def)

lemma run_plaza_opening_error:
  "run [Select plaza, Engine SelectError] =
     \<lparr>selectedStop = Some plaza, sentences = [js ''Solo.''], currentIdx = 0,
      isSpeaking = True, isPaused = False, isPausedRef = False, currentIdxRef = 0,
      speech = [SpeechStop,
        SpeechSpeak (js ''Plaza. Solo.'') (SelectDone [js ''Solo.'']) SelectError],
      alerts = [(js ''Error'', js ''No se pudo reproducir el audio. Verifica ajustes de voz.'')]\<rparr>"
  by (simp add: sequencer_defs cleanChunks_plaza, simp add: plaza_def js_def)

lemma run_plaza_play_pressed:
  "run [Select plaza, Engine (SelectDone [js ''Solo.'']), Toggle] =
     \<lparr>selectedStop = Some plaza, sentences = [js ''Solo.''], currentIdx = 0,
      isSpeaking = False, isPaused = True, isPausedRef = True, currentIdxRef = 0,
      speech = [SpeechStop,
        SpeechSpeak (js ''Plaza. Solo.'') (SelectDone [js ''Solo.'']) SelectError,
        SpeechPause],
      alerts = []\<rparr>"
  using run_snoc [of "[Select plaza, Engine (SelectDone [js ''Solo.''])]" Toggle]
  by (simp add: run_plaza_finished togglePlayback_def)

lemma run_plaza_play_pressed_twice:
  "run [Select plaza, Engine (SelectDone [js ''Solo.'']), Toggle, Toggle] =
     \<lparr>selectedStop = Some plaza, sentences = [js ''Solo.''], currentIdx = 0,
      isSpeaking = False, isPaused = False, isPausedRef = False, currentIdxRef = 0,
      speech = [SpeechStop,
        SpeechSpeak (js ''Plaza. Solo.'') (SelectDone [js ''Solo.'']) SelectError,
        SpeechPause,
        SpeechSpeak (js ''Solo.'') (PlayFromDone [js ''Solo.''] 0) PlayFromError],
      alerts = []\<rparr>"
  using run_snoc [of "[Select plaza, Engine (SelectDone [js ''Solo.'']), Toggle]" Toggle]
  by (simp add: run_plaza_play_pressed togglePlayback_def playFrom_def,
      simp add: js_def trim_def is_white_space_def)

section \<open>Selecting a stop\<close>

text \<open>
  Claim C3. Whatever the state before, \<^verbatim>\<open>handleSelectStop\<close> first stops the engine, then
  speaks the opening utterance; the script is the segmentation of the selected stop's
  description and nothing of the script before; cursor and its ref are 0; the speaking flag
  is set and the pause flag and its ref are cleared, so the state shown is Speaking.
\<close>

theorem handleSelectStop_resets:
  "speech (handleSelectStop st s) =
     speech s @ [SpeechStop,
       SpeechSpeak (initialText st (cleanChunks (description st)))
         (SelectDone (cleanChunks (description st))) SelectError]
   \<and> sentences (handleSelectStop st s) = cleanChunks (description st)
   \<and> selectedStop (handleSelectStop st s) = Some st
   \<and> currentIdx (handleSelectStop st s) = 0
   \<and> currentIdxRef (handleSelectStop st s) = 0
   \<and> isSpeaking (handleSelectStop st s)
   \<and> \<not> isPaused (handleSelectStop st s)
   \<and> \<not> isPausedRef (handleSelectStop st s)
   \<and> playback_state (handleSelectStop st s) = Speaking"
  by (simp add: handleSelectStop_def Let_def playback_state_def)

section \<open>After the opening utterance\<close>

text \<open>
  Claim C4 at a stop of four units. The opening utterance speaks the title and unit 0.
  When it completes, \<^verbatim>\<open>playFrom(cleanChunks.slice(1), 1)\<close> reads index 1 of the script
  without its first unit: the engine is asked for \<^verbatim>\<open>Three.\<close>, which is unit 2 of the
  script, while the cursor is set to 1; unit 1, \<^verbatim>\<open>Two.\<close>, is not spoken.
\<close>

theorem opening_done_skips_second_unit:
  "speech (run [Select giralda]) =
     [SpeechStop,
      SpeechSpeak (js ''Giralda. One.'')
        (SelectDone [js ''One.'', js ''Two.'', js ''Three.'', js ''Four.'']) SelectError]
   \<and> sentences (run [Select giralda,
         Engine (SelectDone [js ''One.'', js ''Two.'', js ''Three.'', js ''Four.''])]) =
       [js ''One.'', js ''Two.'', js ''Three.'', js ''Four.'']
   \<and> currentIdx (run [Select giralda,
         Engine (SelectDone [js ''One.'', js ''Two.'', js ''Three.'', js ''Four.''])]) = 1
   \<and> last (speech (run [Select giralda,
         Engine (SelectDone [js ''One.'', js ''Two.'', js ''Three.'', js ''Four.''])])) =
       SpeechSpeak (js ''Three.'')
         (PlayFromDone [js ''Two.'', js ''Three.'', js ''Four.''] 1) PlayFromError"
  by (simp add: run_giralda_opening_done)
    (simp add: sequencer_defs cleanChunks_giralda, simp add: giralda_def js_def)

text \<open>
  In general: with three units or more the completion of the opening utterance has unit 2
  spoken under cursor 1, and with two units it ends the narration without speaking unit 1.
  A completion of \<^verbatim>\<open>playFrom\<close> goes on to the next index of its own array.
\<close>

lemma deliver_SelectDone_three_or_more:
  "\<not> isPausedRef s \<Longrightarrow> 2 < length cs \<Longrightarrow>
     deliver (SelectDone cs) s =
       s\<lparr>currentIdx := 1, currentIdxRef := 1,
         speech := speech s @
           [SpeechSpeak (trim (cs ! 2)) (PlayFromDone (drop 1 cs) 1) PlayFromError]\<rparr>"
  by (simp add: playFrom_def numeral_2_eq_2)

lemma deliver_SelectDone_two:
  "\<not> isPausedRef s \<Longrightarrow> length cs = 2 \<Longrightarrow>
     deliver (SelectDone cs) s = s\<lparr>isSpeaking := False\<rparr>"
  by (simp add: playFrom_def)

lemma deliver_SelectDone_ends:
  "length cs \<le> 1 \<or> isPausedRef s \<Longrightarrow>
     deliver (SelectDone cs) s = s\<lparr>isSpeaking := False\<rparr>"
  by auto

lemma deliver_PlayFromDone_next:
  "\<not> isPausedRef s \<Longrightarrow> index + 1 < length array \<Longrightarrow>
     deliver (PlayFromDone array index) s =
       s\<lparr>currentIdx := index + 1, currentIdxRef := index + 1,
         speech := speech s @
           [SpeechSpeak (trim (array ! (index + 1))) (PlayFromDone array (index + 1))
              PlayFromError]\<rparr>"
  by (simp add: playFrom_def)

lemma deliver_PlayFromDone_last:
  "\<not> isPausedRef s \<Longrightarrow> length array \<le> index + 1 \<Longrightarrow>
     deliver (PlayFromDone array index) s = s\<lparr>isSpeaking := False\<rparr>"
  by (simp add: playFrom_def)

section \<open>Errors of the engine\<close>

text \<open>
  Claim C7 at an error of the opening utterance. The \<^verbatim>\<open>onError\<close> closure of
  \<^verbatim>\<open>handleSelectStop\<close> shows the alert and writes no flag: the speaking flag stays set
  and the state shown stays Speaking.
\<close>

theorem opening_error_keeps_speaking:
  "speech (run [Select plaza]) =
     [SpeechStop, SpeechSpeak (js ''Plaza. Solo.'') (SelectDone [js ''Solo.'']) SelectError]
   \<and> isSpeaking (run [Select plaza, Engine SelectError])
   \<and> playback_state (run [Select plaza, Engine SelectError]) = Speaking
   \<and> alerts (run [Select plaza, Engine SelectError]) =
       [(js ''Error'', js ''No se pudo reproducir el audio. Verifica ajustes de voz.'')]"
  by (simp add: run_plaza_opening_error playback_state_def)
    (simp add: sequencer_defs cleanChunks_plaza, simp add: plaza_def js_def)

text \<open>
  The \<^verbatim>\<open>onError\<close> closure of \<^verbatim>\<open>playFrom\<close> does clear the speaking flag; neither closure
  speaks again.
\<close>

lemma deliver_PlayFromError_idle:
  "\<not> isPaused s \<Longrightarrow> playback_state (deliver PlayFromError s) = Idle"
  by (simp add: playback_state_def)

lemma deliver_errors_speak_nothing:
  "speech (deliver PlayFromError s) = speech s \<and> speech (deliver SelectError s) = speech s"
  by simp

lemma deliver_SelectError_flags:
  "isSpeaking (deliver SelectError s) = isSpeaking s \<and> isPaused (deliver SelectError s) = isPaused s"
  by simp

section \<open>Stopping\<close>

text \<open>
  Claim C6. Whatever the state before, \<^verbatim>\<open>stopPlayback\<close> stops the engine and leaves the
  speaking and pause flags cleared (the state shown is Idle), the cursor at 0, the script
  empty and no stop selected.
\<close>

theorem stopPlayback_idle:
  "speech (stopPlayback s) = speech s @ [SpeechStop]
   \<and> playback_state (stopPlayback s) = Idle
   \<and> \<not> isSpeaking (stopPlayback s)
   \<and> \<not> isPaused (stopPlayback s)
   \<and> currentIdx (stopPlayback s) = 0
   \<and> sentences (stopPlayback s) = []
   \<and> selectedStop (stopPlayback s) = None"
  by (simp add: stopPlayback_def playback_state_def)

text \<open>The two refs keep the values they had: \<^verbatim>\<open>stopPlayback\<close> writes only state cells.\<close>

lemma stopPlayback_refs:
  "isPausedRef (stopPlayback s) = isPausedRef s \<and> currentIdxRef (stopPlayback s) = currentIdxRef s"
  by (simp add: stopPlayback_def)

section \<open>Pause and resume\<close>

text \<open>
  Claim C10. In the Idle state (speaking and pause flags both cleared), \<^verbatim>\<open>togglePlayback\<close>
  starts nothing: it sets the pause flag and its ref, so the state shown is Paused, and the
  one call it makes to the engine is \<^verbatim>\<open>Speech.pause()\<close>; script, cursor and speaking flag
  stay as they were.
\<close>

theorem togglePlayback_idle:
  "playback_state s = Idle \<Longrightarrow>
     togglePlayback s = s\<lparr>isPaused := True, isPausedRef := True, speech := speech s @ [SpeechPause]\<rparr>
     \<and> playback_state (togglePlayback s) = Paused
     \<and> speech (togglePlayback s) = speech s @ [SpeechPause]
     \<and> \<not> isSpeaking (togglePlayback s)
     \<and> sentences (togglePlayback s) = sentences s
     \<and> currentIdx (togglePlayback s) = currentIdx s"
  by (simp add: togglePlayback_def playback_state_def split: if_splits)

text \<open>
  An instance: the narration of a stop with a single unit has finished, the state is Idle,
  and the play button pressed there pauses.
\<close>

theorem togglePlayback_idle_witness:
  "playback_state (run [Select plaza, Engine (SelectDone [js ''Solo.''])]) = Idle
   \<and> playback_state (togglePlayback (run [Select plaza, Engine (SelectDone [js ''Solo.''])]))
       = Paused
   \<and> speech (togglePlayback (run [Select plaza, Engine (SelectDone [js ''Solo.''])])) =
       [SpeechStop, SpeechSpeak (js ''Plaza. Solo.'') (SelectDone [js ''Solo.'']) SelectError,
        SpeechPause]"
proof -
  let ?s = "run [Select plaza, Engine (SelectDone [js ''Solo.''])]"
  have idle: "playback_state ?s = Idle"
    by (simp add: run_plaza_finished playback_state_def)
  have log: "speech ?s =
      [SpeechStop, SpeechSpeak (js ''Plaza. Solo.'') (SelectDone [js ''Solo.'']) SelectError]"
    by (simp add: run_plaza_finished)
  from togglePlayback_idle [OF idle]
  have "playback_state (togglePlayback ?s) = Paused"
    and "speech (togglePlayback ?s) = speech ?s @ [SpeechPause]"
    by blast+
  with idle log show ?thesis by simp
qed

text \<open>
  What \<^verbatim>\<open>togglePlayback\<close> writes. With the pause flag cleared it sets the flag and its
  ref and asks the engine to pause. With the pause flag set and the cursor ref inside the
  script it clears the flag and its ref and speaks the unit of the script at the cursor
  ref. Neither branch writes the speaking flag.
\<close>

lemma togglePlayback_pauses:
  "\<not> isPaused s \<Longrightarrow>
     togglePlayback s =
       s\<lparr>isPaused := True, isPausedRef := True, speech := speech s @ [SpeechPause]\<rparr>"
  by (simp add: togglePlayback_def)

lemma togglePlayback_resumes:
  "isPaused s \<Longrightarrow> currentIdxRef s < length (sentences s) \<Longrightarrow>
     togglePlayback s =
       s\<lparr>isPaused := False, isPausedRef := False, currentIdx := currentIdxRef s,
         speech := speech s @
           [SpeechSpeak (trim (sentences s ! currentIdxRef s))
              (PlayFromDone (sentences s) (currentIdxRef s)) PlayFromError]\<rparr>"
  by (simp add: togglePlayback_def playFrom_def)

lemma togglePlayback_keeps_isSpeaking:
  "currentIdxRef s < length (sentences s) \<Longrightarrow> isSpeaking (togglePlayback s) = isSpeaking s"
  by (simp add: togglePlayback_def playFrom_def)

text \<open>
  Giralda paused while \<^verbatim>\<open>Three.\<close> is being spoken under cursor 1, resumed, and the
  resumed utterance completed.
\<close>

lemma run_giralda_resumed:
  "run [Select giralda, Engine (SelectDone [js ''One.'', js ''Two.'', js ''Three.'', js ''Four.'']),
        Toggle, Toggle] =
     \<lparr>selectedStop = Some giralda,
      sentences = [js ''One.'', js ''Two.'', js ''Three.'', js ''Four.''],
      currentIdx = 1, isSpeaking = True, isPaused = False, isPausedRef = False,
      currentIdxRef = 1,
      speech = [SpeechStop,
        SpeechSpeak (js ''Giralda. One.'')
          (SelectDone [js ''One.'', js ''Two.'', js ''Three.'', js ''Four.'']) SelectError,
        SpeechSpeak (js ''Three.'')
          (PlayFromDone [js ''Two.'', js ''Three.'', js ''Four.''] 1) PlayFromError,
        SpeechPause,
        SpeechSpeak (js ''Two.'')
          (PlayFromDone [js ''One.'', js ''Two.'', js ''Three.'', js ''Four.''] 1)
          PlayFromError],
      alerts = []\<rparr>"
  using run_snoc [of "[Select giralda,
      Engine (SelectDone [js ''One.'', js ''Two.'', js ''Three.'', js ''Four.'']), Toggle]" Toggle]
  by (simp add: run_giralda_paused togglePlayback_def playFrom_def,
      simp add: js_def trim_def is_white_space_def)

lemma run_giralda_resumed_done:
  "run [Select giralda, Engine (SelectDone [js ''One.'', js ''Two.'', js ''Three.'', js ''Four.'']),
        Toggle, Toggle,
        Engine (PlayFromDone [js ''One.'', js ''Two.'', js ''Three.'', js ''Four.''] 1)] =
     \<lparr>selectedStop = Some giralda,
      sentences = [js ''One.'', js ''Two.'', js ''Three.'', js ''Four.''],
      currentIdx = 2, isSpeaking = True, isPaused = False, isPausedRef = False,
      currentIdxRef = 2,
      speech = [SpeechStop,
        SpeechSpeak (js ''Giralda. One.'')
          (SelectDone [js ''One.'', js ''Two.'', js ''Three.'', js ''Four.'']) SelectError,
        SpeechSpeak (js ''Three.'')
          (PlayFromDone [js ''Two.'', js ''Three.'', js ''Four.''] 1) PlayFromError,
        SpeechPause,
        SpeechSpeak (js ''Two.'')
          (PlayFromDone [js ''One.'', js ''Two.'', js ''Three.'', js ''Four.''] 1)
          PlayFromError,
        SpeechSpeak (js ''Three.'')
          (PlayFromDone [js ''One.'', js ''Two.'', js ''Three.'', js ''Four.''] 2)
          PlayFromError],
      alerts = []\<rparr>"
  using run_snoc [of "[Select giralda,
      Engine (SelectDone [js ''One.'', js ''Two.'', js ''Three.'', js ''Four.'']), Toggle, Toggle]"
      "Engine (PlayFromDone [js ''One.'', js ''Two.'', js ''Three.'', js ''Four.''] 1)"]
  by (simp add: run_giralda_resumed playFrom_def, simp add: js_def trim_def is_white_space_def)

text \<open>
  Alcazar paused during its opening utterance: the completion of that utterance clears
  the speaking flag, and the resume that follows speaks unit 0 with the flag cleared.
\<close>

lemma run_alcazar_opening_done_while_paused:
  "run [Select alcazar, Toggle, Engine (SelectDone [js ''Uno.'', js ''Dos.''])] =
     \<lparr>selectedStop = Some alcazar, sentences = [js ''Uno.'', js ''Dos.''], currentIdx = 0,
      isSpeaking = False, isPaused = True, isPausedRef = True, currentIdxRef = 0,
      speech = [SpeechStop,
        SpeechSpeak (js ''Alcazar. Uno.'') (SelectDone [js ''Uno.'', js ''Dos.'']) SelectError,
        SpeechPause],
      alerts = []\<rparr>"
  by (simp add: sequencer_defs cleanChunks_alcazar, simp add: alcazar_def js_def)

lemma run_alcazar_resumed_after_opening_done:
  "run [Select alcazar, Toggle, Engine (SelectDone [js ''Uno.'', js ''Dos.'']), Toggle] =
     \<lparr>selectedStop = Some alcazar, sentences = [js ''Uno.'', js ''Dos.''], currentIdx = 0,
      isSpeaking = False, isPaused = False, isPausedRef = False, currentIdxRef = 0,
      speech = [SpeechStop,
        SpeechSpeak (js ''Alcazar. Uno.'') (SelectDone [js ''Uno.'', js ''Dos.'']) SelectError,
        SpeechPause,
        SpeechSpeak (js ''Uno.'') (PlayFromDone [js ''Uno.'', js ''Dos.''] 0) PlayFromError],
      alerts = []\<rparr>"
  using run_snoc [of "[Select alcazar, Toggle, Engine (SelectDone [js ''Uno.'', js ''Dos.''])]"
      Toggle]
  by (simp add: run_alcazar_opening_done_while_paused togglePlayback_def playFrom_def,
      simp add: js_def trim_def is_white_space_def)

text \<open>
  Claim C5 at two states that show Paused. After Plaza's narration has finished and the
  play button has paused, a second press speaks unit 0 again but the speaking flag stays
  cleared: the state shown is Idle, not Speaking. With Giralda paused while \<^verbatim>\<open>Three.\<close>
  is being spoken, the press yields Speaking and keeps the cursor at 1, but the unit
  spoken again is \<^verbatim>\<open>Two.\<close>, the unit of the script at the cursor, not the unit that was
  paused.
\<close>

theorem togglePlayback_resume_defects:
  "playback_state (run [Select plaza, Engine (SelectDone [js ''Solo.'']), Toggle]) = Paused
   \<and> togglePlayback (run [Select plaza, Engine (SelectDone [js ''Solo.'']), Toggle]) =
       run [Select plaza, Engine (SelectDone [js ''Solo.'']), Toggle, Toggle]
   \<and> last (speech (run [Select plaza, Engine (SelectDone [js ''Solo.'']), Toggle, Toggle])) =
       SpeechSpeak (js ''Solo.'') (PlayFromDone [js ''Solo.''] 0) PlayFromError
   \<and> \<not> isSpeaking (run [Select plaza, Engine (SelectDone [js ''Solo.'']), Toggle, Toggle])
   \<and> playback_state (run [Select plaza, Engine (SelectDone [js ''Solo.'']), Toggle, Toggle])
       = Idle
   \<and> last (speech (run [Select giralda,
         Engine (SelectDone [js ''One.'', js ''Two.'', js ''Three.'', js ''Four.''])])) =
       SpeechSpeak (js ''Three.'') (PlayFromDone [js ''Two.'', js ''Three.'', js ''Four.''] 1)
         PlayFromError
   \<and> playback_state (run [Select giralda,
         Engine (SelectDone [js ''One.'', js ''Two.'', js ''Three.'', js ''Four.'']), Toggle])
       = Paused
   \<and> togglePlayback (run [Select giralda,
         Engine (SelectDone [js ''One.'', js ''Two.'', js ''Three.'', js ''Four.'']), Toggle]) =
       run [Select giralda,
         Engine (SelectDone [js ''One.'', js ''Two.'', js ''Three.'', js ''Four.'']),
         Toggle, Toggle]
   \<and> playback_state (run [Select giralda,
         Engine (SelectDone [js ''One.'', js ''Two.'', js ''Three.'', js ''Four.'']),
         Toggle, Toggle]) = Speaking
   \<and> last (speech (run [Select giralda,
         Engine (SelectDone [js ''One.'', js ''Two.'', js ''Three.'', js ''Four.'']),
         Toggle, Toggle])) =
       SpeechSpeak (js ''Two.'')
         (PlayFromDone [js ''One.'', js ''Two.'', js ''Three.'', js ''Four.''] 1) PlayFromError"
proof -
  have "run [Select plaza, Engine (SelectDone [js ''Solo.'']), Toggle, Toggle] =
      togglePlayback (run [Select plaza, Engine (SelectDone [js ''Solo.'']), Toggle])"
    using run_snoc [of "[Select plaza, Engine (SelectDone [js ''Solo.'']), Toggle]" Toggle]
    by simp
  then have plaza_step:
    "togglePlayback (run [Select plaza, Engine (SelectDone [js ''Solo.'']), Toggle]) =
      run [Select plaza, Engine (SelectDone [js ''Solo.'']), Toggle, Toggle]"
    by (rule sym)
  have "run [Select giralda,
        Engine (SelectDone [js ''One.'', js ''Two.'', js ''Three.'', js ''Four.'']),
        Toggle, Toggle] =
      togglePlayback (run [Select giralda,
        Engine (SelectDone [js ''One.'', js ''Two.'', js ''Three.'', js ''Four.'']), Toggle])"
    using run_snoc [of "[Select giralda,
        Engine (SelectDone [js ''One.'', js ''Two.'', js ''Three.'', js ''Four.'']), Toggle]"
        Toggle]
    by simp
  then have giralda_step:
    "togglePlayback (run [Select giralda,
        Engine (SelectDone [js ''One.'', js ''Two.'', js ''Three.'', js ''Four.'']), Toggle]) =
      run [Select giralda,
        Engine (SelectDone [js ''One.'', js ''Two.'', js ''Three.'', js ''Four.'']),
        Toggle, Toggle]"
    by (rule sym)
  have plaza_paused:
    "playback_state (run [Select plaza, Engine (SelectDone [js ''Solo.'']), Toggle]) = Paused"
    by (simp add: run_plaza_play_pressed playback_state_def)
  have plaza_resumed:
    "last (speech (run [Select plaza, Engine (SelectDone [js ''Solo.'']), Toggle, Toggle])) =
       SpeechSpeak (js ''Solo.'') (PlayFromDone [js ''Solo.''] 0) PlayFromError
     \<and> \<not> isSpeaking (run [Select plaza, Engine (SelectDone [js ''Solo.'']), Toggle, Toggle])
     \<and> playback_state (run [Select plaza, Engine (SelectDone [js ''Solo.'']), Toggle, Toggle])
         = Idle"
    by (simp add: run_plaza_play_pressed_twice playback_state_def)
  have giralda_speaking:
    "last (speech (run [Select giralda,
         Engine (SelectDone [js ''One.'', js ''Two.'', js ''Three.'', js ''Four.''])])) =
       SpeechSpeak (js ''Three.'') (PlayFromDone [js ''Two.'', js ''Three.'', js ''Four.''] 1)
         PlayFromError"
    by (simp only: run_giralda_opening_done) simp
  have giralda_paused:
    "playback_state (run [Select giralda,
         Engine (SelectDone [js ''One.'', js ''Two.'', js ''Three.'', js ''Four.'']), Toggle])
       = Paused"
    by (simp add: run_giralda_paused playback_state_def)
  have giralda_resumed:
    "playback_state (run [Select giralda,
         Engine (SelectDone [js ''One.'', js ''Two.'', js ''Three.'', js ''Four.'']),
         Toggle, Toggle]) = Speaking
     \<and> last (speech (run [Select giralda,
         Engine (SelectDone [js ''One.'', js ''Two.'', js ''Three.'', js ''Four.'']),
         Toggle, Toggle])) =
       SpeechSpeak (js ''Two.'')
         (PlayFromDone [js ''One.'', js ''Two.'', js ''Three.'', js ''Four.''] 1) PlayFromError"
    by (simp only: run_giralda_resumed) (simp add: playback_state_def)
  show ?thesis
    by (simp only: plaza_step giralda_step plaza_paused plaza_resumed giralda_speaking
        giralda_paused giralda_resumed simp_thms)
qed

section \<open>Completions that arrive late\<close>

text \<open>
  Claim C1, as amended. Selecting a stop first calls \<^verbatim>\<open>Speech.stop()\<close>, which is all the
  code does against the completion of an earlier utterance. The completion closures
  themselves test the pause ref only: delivered while it is set, the closure of
  \<^verbatim>\<open>playFrom\<close> changes nothing, and the closure of an opening utterance speaks nothing
  and moves neither cursor nor script.
\<close>

theorem stale_done_guarded_by_pause_only:
  "speech (handleSelectStop b s) =
     speech s @ [SpeechStop,
       SpeechSpeak (initialText b (cleanChunks (description b)))
         (SelectDone (cleanChunks (description b))) SelectError]
   \<and> (isPausedRef s' \<longrightarrow>
        deliver (PlayFromDone array index) s' = s'
        \<and> speech (deliver (SelectDone cs) s') = speech s'
        \<and> sentences (deliver (SelectDone cs) s') = sentences s'
        \<and> currentIdx (deliver (SelectDone cs) s') = currentIdx s'
        \<and> currentIdxRef (deliver (SelectDone cs) s') = currentIdxRef s')"
  by (simp add: handleSelectStop_def Let_def)

text \<open>
  An instance: Alcazar is selected while Giralda is narrated and then paused; the late
  completion of Giralda's utterance changes nothing.
\<close>

theorem stale_done_guarded_by_pause_only_witness:
  "isPausedRef (run [Select giralda,
       Engine (SelectDone [js ''One.'', js ''Two.'', js ''Three.'', js ''Four.'']),
       Select alcazar, Toggle])
   \<and> run [Select giralda,
       Engine (SelectDone [js ''One.'', js ''Two.'', js ''Three.'', js ''Four.'']),
       Select alcazar, Toggle, Engine (PlayFromDone [js ''Two.'', js ''Three.'', js ''Four.''] 1)] =
     run [Select giralda,
       Engine (SelectDone [js ''One.'', js ''Two.'', js ''Three.'', js ''Four.'']),
       Select alcazar, Toggle]"
proof -
  let ?p = "run [Select giralda,
       Engine (SelectDone [js ''One.'', js ''Two.'', js ''Three.'', js ''Four.'']),
       Select alcazar, Toggle]"
  have paused: "isPausedRef ?p" by (simp add: run_alcazar_paused)
  from stale_done_guarded_by_pause_only [of alcazar initial ?p "[js ''Two.'', js ''Three.'', js ''Four.'']" 1]
    paused
  have "deliver (PlayFromDone [js ''Two.'', js ''Three.'', js ''Four.''] 1) ?p = ?p"
    by blast
  moreover have "run [Select giralda,
       Engine (SelectDone [js ''One.'', js ''Two.'', js ''Three.'', js ''Four.'']),
       Select alcazar, Toggle, Engine (PlayFromDone [js ''Two.'', js ''Three.'', js ''Four.''] 1)] =
       deliver (PlayFromDone [js ''Two.'', js ''Three.'', js ''Four.''] 1) ?p"
    using run_snoc [of "[Select giralda,
       Engine (SelectDone [js ''One.'', js ''Two.'', js ''Three.'', js ''Four.'']),
       Select alcazar, Toggle]" "Engine (PlayFromDone [js ''Two.'', js ''Three.'', js ''Four.''] 1)"]
    by simp
  ultimately show ?thesis using paused by simp
qed

text \<open>
  Without the pause: Alcazar is selected while \<^verbatim>\<open>Three.\<close> of Giralda is being spoken.
  The completion registered with that utterance, delivered after the selection, moves the
  cursor from 0 to 2 and has \<^verbatim>\<open>Four.\<close> of Giralda spoken, while the script is Alcazar's
  two units.
\<close>

theorem stale_done_advances_counterexample:
  "last (speech (run [Select giralda,
       Engine (SelectDone [js ''One.'', js ''Two.'', js ''Three.'', js ''Four.''])])) =
     SpeechSpeak (js ''Three.'') (PlayFromDone [js ''Two.'', js ''Three.'', js ''Four.''] 1)
       PlayFromError
   \<and> sentences (run [Select giralda,
       Engine (SelectDone [js ''One.'', js ''Two.'', js ''Three.'', js ''Four.'']),
       Select alcazar]) = [js ''Uno.'', js ''Dos.'']
   \<and> currentIdx (run [Select giralda,
       Engine (SelectDone [js ''One.'', js ''Two.'', js ''Three.'', js ''Four.'']),
       Select alcazar]) = 0
   \<and> currentIdx (run [Select giralda,
       Engine (SelectDone [js ''One.'', js ''Two.'', js ''Three.'', js ''Four.'']),
       Select alcazar, Engine (PlayFromDone [js ''Two.'', js ''Three.'', js ''Four.''] 1)]) = 2
   \<and> last (speech (run [Select giralda,
       Engine (SelectDone [js ''One.'', js ''Two.'', js ''Three.'', js ''Four.'']),
       Select alcazar, Engine (PlayFromDone [js ''Two.'', js ''Three.'', js ''Four.''] 1)])) =
     SpeechSpeak (js ''Four.'') (PlayFromDone [js ''Two.'', js ''Three.'', js ''Four.''] 2)
       PlayFromError"
  by (simp only: run_giralda_opening_done run_alcazar_after_giralda run_stale_done_after_alcazar)
    simp

end
